theory Spec2Isabelle
  imports Main
begin

section \<open>JavaScript values and objects\<close>

text \<open>
  \<^verbatim>\<open>lib/core.js\<close> exports one function, \<^verbatim>\<open>Celsius(config)\<close>. It resolves the
  caller's configuration against a table of per-environment defaults, validates the
  result, builds the HTTP dispatcher from it and returns an object with nine operations.

  A field of a configuration object holds a string, \<^verbatim>\<open>null\<close> or \<^verbatim>\<open>undefined\<close>
  (the data model types every field of the Configuration as a string or a string
  constant; \<^verbatim>\<open>process.env.PARTNER_TOKEN\<close> of the partner documentation is a string or
  undefined). An object is a finite map from property names to values; reading a
  property that the object does not have gives \<^verbatim>\<open>undefined\<close>.
\<close>

datatype cval = Undefined | Null | Str string

type_synonym config = "string \<rightharpoonup> cval"

definition property :: "config \<Rightarrow> string \<Rightarrow> cval" where
  "property obj k = (case obj k of None \<Rightarrow> Undefined | Some v \<Rightarrow> v)"

text \<open>The operand of \<^verbatim>\<open>!\<close>: of the values above only a non-empty string is truthy.\<close>

fun truthy :: "cval \<Rightarrow> bool" where
  "truthy Undefined = False"
| "truthy Null = False"
| "truthy (Str s) = (s \<noteq> [])"

text \<open>The string a value becomes when it is used as a property key or put in a header.\<close>

fun ToString :: "cval \<Rightarrow> string" where
  "ToString Undefined = ''undefined''"
| "ToString Null = ''null''"
| "ToString (Str s) = s"

text \<open>
  What \<^verbatim>\<open>CONFIG[k]\<close> can be: a defaults object that the table holds under \<open>k\<close>, a
  member that the table inherits from \<^verbatim>\<open>Object.prototype\<close> (a built-in function, or
  the prototype itself for \<^verbatim>\<open>__proto__\<close>), or \<^verbatim>\<open>undefined\<close>.
\<close>

datatype looked = Defaults config | Inherited | NotFound

text \<open>
  \<^verbatim>\<open>Object.assign({}, defaultConfig, config)\<close>: a fresh object that receives the
  enumerable properties of \<^verbatim>\<open>defaultConfig\<close> and then those of \<^verbatim>\<open>config\<close>. A source
  that is \<^verbatim>\<open>undefined\<close> contributes nothing, and neither does an inherited member,
  which has no enumerable property of its own. A property the caller's object has is
  copied whatever its value, \<^verbatim>\<open>undefined\<close> included.
\<close>

definition Object_assign :: "looked \<Rightarrow> config \<Rightarrow> config" where
  "Object_assign defaultConfig config =
     (case defaultConfig of Defaults d \<Rightarrow> d | Inherited \<Rightarrow> Map.empty | NotFound \<Rightarrow> Map.empty)
       ++ config"

text \<open>
  Values that travel through the operations untouched (user data, documents, pagination,
  form fields). Numbers are integers here; no operation of \<^verbatim>\<open>core.js\<close> computes with
  them.
\<close>

datatype jsval =
    JUndefined
  | JNull
  | JBool bool
  | JNum int
  | JStr string
  | JObj "(string \<times> jsval) list"

section \<open>Constants of the modules that core.js requires\<close>

text \<open>
  \<^verbatim>\<open>CONFIG\<close> (\<^verbatim>\<open>lib/config.js\<close>) and \<^verbatim>\<open>AUTH_METHODS\<close>, \<^verbatim>\<open>ENVIRONMENT\<close>
  (\<^verbatim>\<open>lib/consts.js\<close>) are parameters. \<open>CONFIG K\<close> holds the entries of the table
  itself, a defaults object for each environment it knows. The table is an ordinary
  object, as the read \<^verbatim>\<open>CONFIG[config.environment]\<close> of line 70 takes it.
\<close>

record constants =
  CONFIG :: "string \<rightharpoonup> config"
  PRODUCTION :: cval
  API_KEY :: cval
  USER_TOKEN :: cval

text \<open>
  The names of the members that every ordinary object inherits from
  \<^verbatim>\<open>Object.prototype\<close>.
\<close>

definition Object_prototype :: "string list" where
  "Object_prototype =
     [''constructor'', ''hasOwnProperty'', ''isPrototypeOf'', ''propertyIsEnumerable'',
      ''toLocaleString'', ''toString'', ''valueOf'', ''__defineGetter__'',
      ''__defineSetter__'', ''__lookupGetter__'', ''__lookupSetter__'', ''__proto__'']"

text \<open>
  The property read \<^verbatim>\<open>CONFIG[k]\<close>: the table's own entry if it has one, else the
  inherited member of that name if there is one, else \<^verbatim>\<open>undefined\<close>.
\<close>

definition readCONFIG :: "constants \<Rightarrow> string \<Rightarrow> looked" where
  "readCONFIG K k =
     (case CONFIG K k of
        Some d \<Rightarrow> Defaults d
      | None \<Rightarrow> if k \<in> set Object_prototype then Inherited else NotFound)"

text \<open>
  \<^verbatim>\<open>ERRORS.INVALID_AUTH_METHOD\<close> and \<^verbatim>\<open>ERRORS.INVALID_PARTNER_KEY\<close>: the messages of the
  two \<^verbatim>\<open>Error\<close>s that the constructor throws.
\<close>

datatype error = INVALID_AUTH_METHOD | INVALID_PARTNER_KEY

text \<open>
  Modelled from the spec: \<^verbatim>\<open>PATHS\<close> of \<^verbatim>\<open>lib/consts.js\<close>, which is not among the
  sources. The facade table of the specification gives the path of every operation;
  a template interpolates the coin symbol or the transaction id, both strings.
\<close>

definition PATHS_KYC :: string where
  "PATHS_KYC = ''/kyc''"

definition PATHS_BALANCE_SUMMARY :: string where
  "PATHS_BALANCE_SUMMARY = ''/balance''"

definition PATHS_COIN_BALANCE :: "string \<Rightarrow> string" where
  "PATHS_COIN_BALANCE coin = ''/balance/'' @ coin"

definition PATHS_TRANSACTIONS_SUMMARY :: string where
  "PATHS_TRANSACTIONS_SUMMARY = ''/transactions''"

definition PATHS_COIN_TRANSACTIONS :: "string \<Rightarrow> string" where
  "PATHS_COIN_TRANSACTIONS coin = ''/transactions/'' @ coin"

definition PATHS_DEPOSIT :: "string \<Rightarrow> string" where
  "PATHS_DEPOSIT coin = ''/deposit/'' @ coin"

definition PATHS_WITHDRAW :: "string \<Rightarrow> string" where
  "PATHS_WITHDRAW coin = ''/withdraw/'' @ coin"

definition PATHS_TRANSACTION_STATUS :: "string \<Rightarrow> string" where
  "PATHS_TRANSACTION_STATUS transaction = ''/transactions/status/'' @ transaction"

section \<open>The dispatcher's interface and the object Celsius returns\<close>

text \<open>
  \<^verbatim>\<open>httpClient.get(url, queryParams, userSecret)\<close> and
  \<^verbatim>\<open>httpClient.post(url, data, documents, userSecret)\<close>. The type \<open>'r\<close> is what a call
  returns (a promise); the operations hand it on and never look inside.
\<close>

record 'r http_client =
  get :: "string \<Rightarrow> jsval \<Rightarrow> string \<Rightarrow> 'r"
  post :: "string \<Rightarrow> jsval \<Rightarrow> jsval \<Rightarrow> string \<Rightarrow> 'r"

record 'r celsius =
  getKycStatus :: "string \<Rightarrow> 'r"
  verifyKyc :: "jsval \<Rightarrow> jsval \<Rightarrow> string \<Rightarrow> 'r"
  getBalanceSummary :: "string \<Rightarrow> 'r"
  getCoinBalance :: "string \<Rightarrow> string \<Rightarrow> 'r"
  getTransactionSummary :: "jsval \<Rightarrow> string \<Rightarrow> 'r"
  getCoinTransactions :: "string \<Rightarrow> jsval \<Rightarrow> string \<Rightarrow> 'r"
  getDeposit :: "string \<Rightarrow> string \<Rightarrow> 'r"
  withdraw :: "string \<Rightarrow> jsval \<Rightarrow> string \<Rightarrow> 'r"
  getTransactionStatus :: "string \<Rightarrow> string \<Rightarrow> 'r"

text \<open>The object literal of lines 86 to 225, over the \<^verbatim>\<open>httpClient\<close> of line 84.\<close>

definition facade :: "'r http_client \<Rightarrow> 'r celsius" where
  "facade httpClient =
     \<lparr> getKycStatus = (\<lambda>userSecret. get httpClient PATHS_KYC JNull userSecret),
       verifyKyc = (\<lambda>userData documents userSecret.
          post httpClient PATHS_KYC userData documents userSecret),
       getBalanceSummary = (\<lambda>userSecret.
          get httpClient PATHS_BALANCE_SUMMARY JNull userSecret),
       getCoinBalance = (\<lambda>coin userSecret.
          get httpClient (PATHS_COIN_BALANCE coin) JNull userSecret),
       getTransactionSummary = (\<lambda>pagination userSecret.
          get httpClient PATHS_TRANSACTIONS_SUMMARY pagination userSecret),
       getCoinTransactions = (\<lambda>coin pagination userSecret.
          get httpClient (PATHS_COIN_TRANSACTIONS coin) pagination userSecret),
       getDeposit = (\<lambda>coin userSecret.
          get httpClient (PATHS_DEPOSIT coin) JNull userSecret),
       withdraw = (\<lambda>coin formFields userSecret.
          post httpClient (PATHS_WITHDRAW coin) formFields JNull userSecret),
       getTransactionStatus = (\<lambda>transaction userSecret.
          get httpClient (PATHS_TRANSACTION_STATUS transaction) JNull userSecret) \<rparr>"

section \<open>The constructor\<close>

text \<open>
  Lines 70 to 73: \<^verbatim>\<open>CONFIG[config.environment]\<close>, or
  \<^verbatim>\<open>CONFIG[ENVIRONMENT.PRODUCTION]\<close> when that is falsy. Of the values a read of the
  table gives only \<^verbatim>\<open>undefined\<close> is falsy: a defaults object and an inherited member
  are both truthy.
\<close>

definition selectDefaults :: "constants \<Rightarrow> config \<Rightarrow> looked" where
  "selectDefaults K config =
     (let defaultConfig = readCONFIG K (ToString (property config ''environment''))
      in if defaultConfig = NotFound then readCONFIG K (ToString (PRODUCTION K))
         else defaultConfig)"

text \<open>Line 74: the merged configuration.\<close>

definition resolve :: "constants \<Rightarrow> config \<Rightarrow> config" where
  "resolve K config = Object_assign (selectDefaults K config) config"

text \<open>Lines 76 to 82: the two checks, in the order of the source.\<close>

definition validate :: "constants \<Rightarrow> config \<Rightarrow> error option" where
  "validate K config =
     (if property config ''authMethod'' \<noteq> API_KEY K \<and> property config ''authMethod'' \<noteq> USER_TOKEN K
      then Some INVALID_AUTH_METHOD
      else if \<not> truthy (property config ''partnerKey'')
      then Some INVALID_PARTNER_KEY
      else None)"

text \<open>
  The objects that JavaScript code can reach by reference are kept in a heap, a list
  indexed by address. \<^verbatim>\<open>Object.assign({}, ...)\<close> creates the merged configuration as a
  new object, at the first free address; \<^verbatim>\<open>HttpClient(config)\<close> receives that address.
  \<^verbatim>\<open>HttpClient\<close> (\<^verbatim>\<open>lib/http-client.js\<close>) is a parameter, taken to return its
  dispatcher without throwing. The argument \<open>config\<close> is an object, as the JSDoc of the
  function types it. A thrown \<^verbatim>\<open>Error\<close> is \<open>Inl\<close>.
\<close>

definition Celsius ::
  "constants \<Rightarrow> (nat \<Rightarrow> 'r http_client) \<Rightarrow> config \<Rightarrow> config list \<Rightarrow> error + ('r celsius \<times> config list)"
where
  "Celsius K HttpClient config h =
     (let merged = resolve K config in
      case validate K merged of
        Some e \<Rightarrow> Inl e
      | None \<Rightarrow> Inr (facade (HttpClient (length h)), h @ [merged]))"

section \<open>The store and the operations as calls\<close>

text \<open>
  A call of the dispatcher acts on the world: the heap of objects, where the merged
  configuration lives, and whatever the dispatcher itself keeps or sends (\<open>net\<close>).
  With \<open>'r\<close> a function from the world to a result and the world left behind, an
  operation of the facade is such a function too.
\<close>

record 'c world =
  heap :: "config list"
  net :: 'c

text \<open>The object at an address of the heap, if there is one.\<close>

definition objectAt :: "config list \<Rightarrow> nat \<Rightarrow> config option" where
  "objectAt h a = (if a < length h then Some (h ! a) else None)"

text \<open>A call of one of the nine operations, with its arguments in the source's order.\<close>

datatype invocation =
    GetKycStatus string
  | VerifyKyc jsval jsval string
  | GetBalanceSummary string
  | GetCoinBalance string string
  | GetTransactionSummary jsval string
  | GetCoinTransactions string jsval string
  | GetDeposit string string
  | Withdraw string jsval string
  | GetTransactionStatus string string

fun invoke :: "'r celsius \<Rightarrow> invocation \<Rightarrow> 'r" where
  "invoke api (GetKycStatus userSecret) = getKycStatus api userSecret"
| "invoke api (VerifyKyc userData documents userSecret) =
     verifyKyc api userData documents userSecret"
| "invoke api (GetBalanceSummary userSecret) = getBalanceSummary api userSecret"
| "invoke api (GetCoinBalance coin userSecret) = getCoinBalance api coin userSecret"
| "invoke api (GetTransactionSummary pagination userSecret) =
     getTransactionSummary api pagination userSecret"
| "invoke api (GetCoinTransactions coin pagination userSecret) =
     getCoinTransactions api coin pagination userSecret"
| "invoke api (GetDeposit coin userSecret) = getDeposit api coin userSecret"
| "invoke api (Withdraw coin formFields userSecret) = withdraw api coin formFields userSecret"
| "invoke api (GetTransactionStatus transaction userSecret) =
     getTransactionStatus api transaction userSecret"

fun userSecretOf :: "invocation \<Rightarrow> string" where
  "userSecretOf (GetKycStatus userSecret) = userSecret"
| "userSecretOf (VerifyKyc userData documents userSecret) = userSecret"
| "userSecretOf (GetBalanceSummary userSecret) = userSecret"
| "userSecretOf (GetCoinBalance coin userSecret) = userSecret"
| "userSecretOf (GetTransactionSummary pagination userSecret) = userSecret"
| "userSecretOf (GetCoinTransactions coin pagination userSecret) = userSecret"
| "userSecretOf (GetDeposit coin userSecret) = userSecret"
| "userSecretOf (Withdraw coin formFields userSecret) = userSecret"
| "userSecretOf (GetTransactionStatus transaction userSecret) = userSecret"

text \<open>
  A dispatcher that only writes down the calls it receives; it stands in for
  \<^verbatim>\<open>HttpClient\<close> where a concrete one is needed.
\<close>

datatype dispatch = Get string jsval string | Post string jsval jsval string

definition logging :: "nat \<Rightarrow> (dispatch list world \<Rightarrow> unit \<times> dispatch list world) http_client" where
  "logging config =
     \<lparr> get = (\<lambda>url queryParams userSecret w.
          ((), w\<lparr>net := net w @ [Get url queryParams userSecret]\<rparr>)),
       post = (\<lambda>url data documents userSecret w.
          ((), w\<lparr>net := net w @ [Post url data documents userSecret]\<rparr>)) \<rparr>"

text \<open>
  Sample constants for concrete runs: a defaults table for two environments, and the
  two authentication methods under the names the documentation uses for them.
\<close>

definition sampleConstants :: constants where
  "sampleConstants =
     \<lparr> CONFIG =
         [''production'' \<mapsto>
            [''baseUrl'' \<mapsto> Str ''https://api.example'', ''publicKey'' \<mapsto> Str ''PK-production''],
          ''staging'' \<mapsto>
            [''baseUrl'' \<mapsto> Str ''https://staging.example'', ''publicKey'' \<mapsto> Str ''PK-staging'']],
       PRODUCTION = Str ''production'',
       API_KEY = Str ''api-key'',
       USER_TOKEN = Str ''user-token'' \<rparr>"

text \<open>
  The sample constants with a production defaults table that brings an authentication
  method and a partner key of its own.
\<close>

definition defaultsWithCredentials :: constants where
  "defaultsWithCredentials =
     sampleConstants \<lparr> CONFIG :=
       [''production'' \<mapsto> [''authMethod'' \<mapsto> Str ''api-key'', ''partnerKey'' \<mapsto> Str ''p-default'']] \<rparr>"

section \<open>The dispatcher of the specification\<close>

text \<open>
  The dispatcher, \<^verbatim>\<open>lib/http-client.js\<close>, is not among the sources. What follows is
  the specification's account of the requests it builds: a request has a method, a path,
  a query string, a body and headers; the two authentication headers are named by what
  they carry; a part of the body is tagged with the scheme that encodes it.
\<close>

text \<open>
  Modelled from the spec: the verb of a request, read or write, of the missing
  \<^verbatim>\<open>lib/http-client.js\<close>.
\<close>

datatype verb = GET | POST

text \<open>
  Modelled from the spec: the two authentication headers of a request; the names that
  \<^verbatim>\<open>lib/http-client.js\<close> gives them are not in the sources.
\<close>

datatype header = PartnerCredential | UserCredential

text \<open>
  Modelled from the spec: the two schemes that encode a part of a body in the missing
  \<^verbatim>\<open>lib/http-client.js\<close>.
\<close>

datatype encoding = Json | Multipart

text \<open>
  Modelled from the spec: the request descriptor, built afresh for every call by the
  missing \<^verbatim>\<open>lib/http-client.js\<close>.
\<close>

record request =
  reqMethod :: verb
  reqPath :: string
  reqQuery :: string
  reqBody :: "(encoding \<times> jsval) list"
  reqHeaders :: "(header \<times> string) list"

text \<open>
  Modelled from the spec: a payload is present unless it is \<^verbatim>\<open>null\<close> or
  \<^verbatim>\<open>undefined\<close>. \<^verbatim>\<open>lib/http-client.js\<close>, which tests it, is missing.
\<close>

fun present :: "jsval \<Rightarrow> bool" where
  "present JUndefined = False"
| "present JNull = False"
| "present v = True"

text \<open>
  The payload of a read becomes query parameters: \<^verbatim>\<open>name=value\<close> pairs joined by
  \<^verbatim>\<open>&\<close> in the order of the object's properties, a number in decimal. The
  specification gives \<^verbatim>\<open>page=1&perPage=20\<close> for \<^verbatim>\<open>{page: 1, perPage: 20}\<close> and
  says nothing of escaping or of nested values, which are left empty here.
\<close>

text \<open>
  Modelled from the spec: a number in decimal, for the serialiser of the missing
  \<^verbatim>\<open>lib/http-client.js\<close>.
\<close>

fun decimal :: "nat \<Rightarrow> string" where
  "decimal n =
     (if n < 10 then [''0123456789'' ! n]
      else decimal (n div 10) @ [''0123456789'' ! (n mod 10)])"

declare decimal.simps [simp del]

text \<open>
  Modelled from the spec: the value of one query parameter, for the serialiser of the
  missing \<^verbatim>\<open>lib/http-client.js\<close>.
\<close>

fun scalar :: "jsval \<Rightarrow> string" where
  "scalar (JStr s) = s"
| "scalar (JNum n) = (if n < 0 then ''-'' @ decimal (nat (- n)) else decimal (nat n))"
| "scalar (JBool b) = (if b then ''true'' else ''false'')"
| "scalar v = []"

text \<open>
  Modelled from the spec: the pairs of a query string, for the serialiser of the missing
  \<^verbatim>\<open>lib/http-client.js\<close>.
\<close>

fun parameters :: "(string \<times> jsval) list \<Rightarrow> string" where
  "parameters [] = []"
| "parameters [(k, v)] = k @ ''='' @ scalar v"
| "parameters ((k, v) # rest) = k @ ''='' @ scalar v @ ''&'' @ parameters rest"

text \<open>
  Modelled from the spec: the query string of a payload, for the missing
  \<^verbatim>\<open>lib/http-client.js\<close>; a payload that is absent or no object gives none.
\<close>

fun serialize :: "jsval \<Rightarrow> string" where
  "serialize (JObj props) = parameters props"
| "serialize v = []"

text \<open>
  Modelled from the spec: the body of a write. The primary payload, if present, is
  encoded as JSON and the secondary payload, if present, with the multipart scheme.
  \<^verbatim>\<open>lib/http-client.js\<close>, which encodes them, is missing.
\<close>

definition part :: "encoding \<Rightarrow> jsval \<Rightarrow> (encoding \<times> jsval) list" where
  "part enc v = (if present v then [(enc, v)] else [])"

text \<open>
  Reading through a reference. An address that \<^verbatim>\<open>Celsius\<close> hands out is below the
  length of the heap; any other address, which no reference of the program holds, reads
  as an object without properties.
\<close>

definition deref :: "config list \<Rightarrow> nat \<Rightarrow> config" where
  "deref h a = (case objectAt h a of None \<Rightarrow> Map.empty | Some obj \<Rightarrow> obj)"

text \<open>
  Modelled from the spec: the two authentication headers of every request, the partner
  credential of the configuration and the user secret of the call.
  \<^verbatim>\<open>lib/http-client.js\<close>, which sets them, is missing.
\<close>

definition credentials :: "config \<Rightarrow> string \<Rightarrow> (header \<times> string) list" where
  "credentials config userSecret =
     [(PartnerCredential, ToString (property config ''partnerKey'')), (UserCredential, userSecret)]"

text \<open>
  Modelled from the spec: sending a request. What the transport, the verifier and the
  remote service make of a request is the parameter \<open>exchange\<close>, which may depend on
  the requests sent before; the request is added to those sent.
  \<^verbatim>\<open>lib/http-client.js\<close>, which sends it, is missing.
\<close>

definition send ::
  "(request list \<Rightarrow> request \<Rightarrow> 'a) \<Rightarrow> request \<Rightarrow> request list world \<Rightarrow> 'a \<times> request list world"
where
  "send exchange req w = (exchange (net w) req, w\<lparr>net := net w @ [req]\<rparr>)"

text \<open>
  Modelled from the spec: \<^verbatim>\<open>HttpClient(config)\<close> of \<^verbatim>\<open>lib/http-client.js\<close>, which is
  missing. A read has its payload in the query and no body; a write has its payloads in
  the body. Both read the configuration object when they are called.
\<close>

definition HttpClient_spec ::
  "(request list \<Rightarrow> request \<Rightarrow> 'a) \<Rightarrow> nat \<Rightarrow>
   (request list world \<Rightarrow> 'a \<times> request list world) http_client"
where
  "HttpClient_spec exchange config =
     \<lparr> get = (\<lambda>url queryParams userSecret w.
          send exchange
            \<lparr> reqMethod = GET, reqPath = url, reqQuery = serialize queryParams, reqBody = [],
              reqHeaders = credentials (deref (heap w) config) userSecret \<rparr> w),
       post = (\<lambda>url data documents userSecret w.
          send exchange
            \<lparr> reqMethod = POST, reqPath = url, reqQuery = [],
              reqBody = part Json data @ part Multipart documents,
              reqHeaders = credentials (deref (heap w) config) userSecret \<rparr> w) \<rparr>"

section \<open>Configuration resolution and validation\<close>

lemma resolve_caller_wins: "config k = Some v \<Longrightarrow> resolve K config k = Some v"
  by (simp add: resolve_def Object_assign_def)

lemma resolve_default:
  "config k = None \<Longrightarrow>
   resolve K config k = (case selectDefaults K config of Defaults d \<Rightarrow> d k | _ \<Rightarrow> None)"
  by (simp add: resolve_def Object_assign_def map_add_def split: option.splits looked.splits)

lemma resolve_own_entry:
  "CONFIG K (ToString (property config ''environment'')) = Some d \<Longrightarrow>
   resolve K config = d ++ config"
  by (simp add: resolve_def selectDefaults_def readCONFIG_def Object_assign_def)

lemma resolve_fallback:
  "readCONFIG K (ToString (property config ''environment'')) = NotFound \<Longrightarrow>
   resolve K config =
     (case CONFIG K (ToString (PRODUCTION K)) of None \<Rightarrow> Map.empty | Some d \<Rightarrow> d) ++ config"
  by (simp add: resolve_def selectDefaults_def readCONFIG_def Object_assign_def
      split: option.splits)

lemma resolve_inherited:
  "CONFIG K (ToString (property config ''environment'')) = None \<Longrightarrow>
   ToString (property config ''environment'') \<in> set Object_prototype \<Longrightarrow>
   resolve K config = config"
  by (simp add: resolve_def selectDefaults_def readCONFIG_def Object_assign_def)

lemma environment_key:
  "config ''environment'' = None \<Longrightarrow> selectDefaults K config =
     (if readCONFIG K ''undefined'' = NotFound then readCONFIG K (ToString (PRODUCTION K))
      else readCONFIG K ''undefined'')"
  "config ''environment'' = Some Undefined \<Longrightarrow> selectDefaults K config =
     (if readCONFIG K ''undefined'' = NotFound then readCONFIG K (ToString (PRODUCTION K))
      else readCONFIG K ''undefined'')"
  "config ''environment'' = Some Null \<Longrightarrow> selectDefaults K config =
     (if readCONFIG K ''null'' = NotFound then readCONFIG K (ToString (PRODUCTION K))
      else readCONFIG K ''null'')"
  "config ''environment'' = Some (Str s) \<Longrightarrow> selectDefaults K config =
     (if readCONFIG K s = NotFound then readCONFIG K (ToString (PRODUCTION K))
      else readCONFIG K s)"
  by (simp_all add: selectDefaults_def property_def Let_def)

lemma Celsius_unfold:
  "Celsius K HttpClient config h =
     (case validate K (resolve K config) of
        Some e \<Rightarrow> Inl e
      | None \<Rightarrow> Inr (facade (HttpClient (length h)), h @ [resolve K config]))"
  by (simp add: Celsius_def Let_def)

lemma not_truthy_iff: "\<not> truthy v \<longleftrightarrow> v = Undefined \<or> v = Null \<or> v = Str []"
  by (cases v) auto

lemma sample_simps:
  "readCONFIG sampleConstants ''production'' =
     Defaults [''baseUrl'' \<mapsto> Str ''https://api.example'', ''publicKey'' \<mapsto> Str ''PK-production'']"
  "readCONFIG sampleConstants ''staging'' =
     Defaults [''baseUrl'' \<mapsto> Str ''https://staging.example'', ''publicKey'' \<mapsto> Str ''PK-staging'']"
  "readCONFIG sampleConstants ''undefined'' = NotFound"
  "readCONFIG sampleConstants ''sandbox'' = NotFound"
  "readCONFIG sampleConstants ''toString'' = Inherited"
  "PRODUCTION sampleConstants = Str ''production''"
  "API_KEY sampleConstants = Str ''api-key''"
  "USER_TOKEN sampleConstants = Str ''user-token''"
  by (simp_all add: sampleConstants_def readCONFIG_def Object_prototype_def)

lemma Celsius_Inr:
  "Celsius K HttpClient config h = Inr (api, h') \<Longrightarrow>
   api = facade (HttpClient (length h)) \<and> h' = h @ [resolve K config] \<and>
   validate K (resolve K config) = None"
  by (auto simp: Celsius_unfold split: option.splits)

lemmas PATHS_defs = PATHS_KYC_def PATHS_BALANCE_SUMMARY_def PATHS_COIN_BALANCE_def
  PATHS_TRANSACTIONS_SUMMARY_def PATHS_COIN_TRANSACTIONS_def PATHS_DEPOSIT_def
  PATHS_WITHDRAW_def PATHS_TRANSACTION_STATUS_def

lemma sample_valid:
  "Celsius sampleConstants HttpClient
     [''authMethod'' \<mapsto> Str ''user-token'', ''partnerKey'' \<mapsto> Str ''p-secret''] h =
   Inr (facade (HttpClient (length h)),
        h @ [resolve sampleConstants [''authMethod'' \<mapsto> Str ''user-token'', ''partnerKey'' \<mapsto> Str ''p-secret'']])"
  by (simp add: Celsius_unfold validate_def resolve_def selectDefaults_def Object_assign_def
      property_def sample_simps)

lemma objectAt_new: "objectAt (h @ [m]) (length h) = Some m"
  by (simp add: objectAt_def)

text \<open>
  C2. For every configuration the caller supplies, construction throws if and only if
  the authentication method of the merged configuration is neither \<^verbatim>\<open>API_KEY\<close> nor
  \<^verbatim>\<open>USER_TOKEN\<close>, or its partner key is empty or absent (the empty string,
  \<^verbatim>\<open>null\<close>, \<^verbatim>\<open>undefined\<close> or no such property). The error is the invalid-auth-method
  one exactly when the method is not recognised, and the invalid-partner-key one exactly
  when the method is recognised and the key is empty or absent. When neither condition
  holds, and only then, construction returns the client object: the facade over the
  dispatcher built from the merged configuration.
\<close>

theorem Celsius_fails_iff:
  "((\<exists>e. Celsius K HttpClient config h = Inl e) \<longleftrightarrow>
      property (resolve K config) ''authMethod'' \<notin> {API_KEY K, USER_TOKEN K} \<or>
      property (resolve K config) ''partnerKey'' \<in> {Undefined, Null, Str []}) \<and>
   (Celsius K HttpClient config h = Inl INVALID_AUTH_METHOD \<longleftrightarrow>
      property (resolve K config) ''authMethod'' \<notin> {API_KEY K, USER_TOKEN K}) \<and>
   (Celsius K HttpClient config h = Inl INVALID_PARTNER_KEY \<longleftrightarrow>
      property (resolve K config) ''authMethod'' \<in> {API_KEY K, USER_TOKEN K} \<and>
      property (resolve K config) ''partnerKey'' \<in> {Undefined, Null, Str []}) \<and>
   (Celsius K HttpClient config h = Inr (facade (HttpClient (length h)), h @ [resolve K config]) \<longleftrightarrow>
      property (resolve K config) ''authMethod'' \<in> {API_KEY K, USER_TOKEN K} \<and>
      property (resolve K config) ''partnerKey'' \<notin> {Undefined, Null, Str []})"
proof -
  let ?m = "resolve K config"
  have T: "property ?m ''partnerKey'' \<in> {Undefined, Null, Str []} \<longleftrightarrow> \<not> truthy (property ?m ''partnerKey'')"
    using not_truthy_iff [of "property ?m ''partnerKey''"] by auto
  show ?thesis
    unfolding Celsius_unfold T
    by (cases "validate K ?m") (auto simp: validate_def split: if_splits)
qed

theorem Celsius_fails_iff_witness:
  "Celsius sampleConstants logging [''authMethod'' \<mapsto> Str ''api-key''] [] = Inl INVALID_PARTNER_KEY \<and>
   Celsius sampleConstants logging [''partnerKey'' \<mapsto> Str ''p-secret''] [] = Inl INVALID_AUTH_METHOD \<and>
   (\<exists>api h. Celsius sampleConstants logging
       [''authMethod'' \<mapsto> Str ''user-token'', ''partnerKey'' \<mapsto> Str ''p-secret''] [] = Inr (api, h))"
proof -
  let ?K = sampleConstants
  have a: "Celsius ?K logging [''authMethod'' \<mapsto> Str ''api-key''] [] = Inl INVALID_PARTNER_KEY"
    using Celsius_fails_iff [of ?K logging "[''authMethod'' \<mapsto> Str ''api-key'']" "[]"]
    by (simp add: resolve_def selectDefaults_def Object_assign_def property_def sample_simps)
  have b: "Celsius ?K logging [''partnerKey'' \<mapsto> Str ''p-secret''] [] = Inl INVALID_AUTH_METHOD"
    using Celsius_fails_iff [of ?K logging "[''partnerKey'' \<mapsto> Str ''p-secret'']" "[]"]
    by (simp add: resolve_def selectDefaults_def Object_assign_def property_def sample_simps)
  have c: "\<exists>api h. Celsius ?K logging
       [''authMethod'' \<mapsto> Str ''user-token'', ''partnerKey'' \<mapsto> Str ''p-secret''] [] = Inr (api, h)"
    using Celsius_fails_iff [of ?K logging "[''authMethod'' \<mapsto> Str ''user-token'', ''partnerKey'' \<mapsto> Str ''p-secret'']" "[]"]
    by (simp add: resolve_def selectDefaults_def Object_assign_def property_def sample_simps)
  from a b c show ?thesis by blast
qed

text \<open>
  C3. Resolution is to take the defaults table of \<^verbatim>\<open>config.environment\<close>, or the
  production table when the environment is not recognised, and to lay the caller's
  object over it. The code does so when the table has an entry for the environment
  (\<open>resolve_own_entry\<close>) and when the read of the table gives \<^verbatim>\<open>undefined\<close>
  (\<open>resolve_fallback\<close>), and the caller's values always win (\<open>resolve_caller_wins\<close>).
  It misses the fallback for an environment that the table does not know but that names
  a member every object inherits: with the sample table, which knows \<^verbatim>\<open>production\<close> and
  \<^verbatim>\<open>staging\<close> only, the unknown environment \<^verbatim>\<open>sandbox\<close> gets the production
  defaults, while the unknown environment \<^verbatim>\<open>toString\<close> gets no defaults at all: the
  resolved configuration is the caller's object as it came, and construction succeeds
  with it.
\<close>

theorem fallback_missed_at_toString:
  "CONFIG sampleConstants ''sandbox'' = None \<and>
   CONFIG sampleConstants ''toString'' = None \<and>
   resolve sampleConstants
     [''environment'' \<mapsto> Str ''sandbox'', ''authMethod'' \<mapsto> Str ''api-key'',
      ''partnerKey'' \<mapsto> Str ''p-secret''] ''baseUrl'' = Some (Str ''https://api.example'') \<and>
   resolve sampleConstants
     [''environment'' \<mapsto> Str ''toString'', ''authMethod'' \<mapsto> Str ''api-key'',
      ''partnerKey'' \<mapsto> Str ''p-secret''] ''baseUrl'' = None \<and>
   resolve sampleConstants
     [''environment'' \<mapsto> Str ''toString'', ''authMethod'' \<mapsto> Str ''api-key'',
      ''partnerKey'' \<mapsto> Str ''p-secret''] =
     [''environment'' \<mapsto> Str ''toString'', ''authMethod'' \<mapsto> Str ''api-key'',
      ''partnerKey'' \<mapsto> Str ''p-secret''] \<and>
   Celsius sampleConstants logging
     [''environment'' \<mapsto> Str ''toString'', ''authMethod'' \<mapsto> Str ''api-key'',
      ''partnerKey'' \<mapsto> Str ''p-secret''] [] =
     Inr (facade (logging 0),
          [[''environment'' \<mapsto> Str ''toString'', ''authMethod'' \<mapsto> Str ''api-key'',
            ''partnerKey'' \<mapsto> Str ''p-secret'']])"
proof -
  let ?K = sampleConstants
  let ?s = "[''environment'' \<mapsto> Str ''sandbox'', ''authMethod'' \<mapsto> Str ''api-key'',
      ''partnerKey'' \<mapsto> Str ''p-secret'']"
  let ?t = "[''environment'' \<mapsto> Str ''toString'', ''authMethod'' \<mapsto> Str ''api-key'',
      ''partnerKey'' \<mapsto> Str ''p-secret'']"
  have own: "CONFIG ?K ''sandbox'' = None" "CONFIG ?K ''toString'' = None"
    by (simp_all add: sampleConstants_def)
  have nf: "readCONFIG ?K (ToString (property ?s ''environment'')) = NotFound"
    by (simp add: property_def sample_simps)
  have prod: "CONFIG ?K (ToString (PRODUCTION ?K)) =
      Some [''baseUrl'' \<mapsto> Str ''https://api.example'', ''publicKey'' \<mapsto> Str ''PK-production'']"
    by (simp add: sampleConstants_def)
  have "resolve ?K ?s =
      [''baseUrl'' \<mapsto> Str ''https://api.example'', ''publicKey'' \<mapsto> Str ''PK-production''] ++ ?s"
    using resolve_fallback [OF nf] by (simp only: prod option.case)
  then have a: "resolve ?K ?s ''baseUrl'' = Some (Str ''https://api.example'')"
    by simp
  have t: "resolve ?K ?t = ?t"
    by (rule resolve_inherited) (simp_all add: property_def own Object_prototype_def)
  then have b: "resolve ?K ?t ''baseUrl'' = None"
    by simp
  have c: "Celsius ?K logging ?t [] = Inr (facade (logging 0), [?t])"
    by (simp add: Celsius_unfold t validate_def property_def sample_simps)
  from own a b t c show ?thesis by blast
qed

text \<open>
  C10. The authentication method is checked before the partner key: a merged
  configuration that fails both checks is rejected with the invalid-auth-method error.
  Both checks read the merged configuration: two caller configurations that merge to
  the same object give the same result, so a value that only the defaults supply counts
  like one the caller wrote.
\<close>

theorem auth_check_first_on_merged:
  "(property (resolve K config) ''authMethod'' \<notin> {API_KEY K, USER_TOKEN K} \<and>
    property (resolve K config) ''partnerKey'' \<in> {Undefined, Null, Str []} \<longrightarrow>
      Celsius K HttpClient config h = Inl INVALID_AUTH_METHOD) \<and>
   (resolve K config = resolve K config' \<longrightarrow>
      Celsius K HttpClient config h = Celsius K HttpClient config' h)"
  by (auto simp: Celsius_unfold validate_def)

theorem auth_check_first_on_merged_witness:
  "Celsius sampleConstants logging [''authMethod'' \<mapsto> Str ''password''] [] = Inl INVALID_AUTH_METHOD \<and>
   Celsius sampleConstants logging Map.empty [] = Inl INVALID_AUTH_METHOD \<and>
   Celsius defaultsWithCredentials logging Map.empty [] =
     Celsius defaultsWithCredentials logging
       [''authMethod'' \<mapsto> Str ''api-key'', ''partnerKey'' \<mapsto> Str ''p-default''] [] \<and>
   (\<exists>api h. Celsius defaultsWithCredentials logging Map.empty [] = Inr (api, h))"
proof -
  let ?K = sampleConstants
  let ?D = defaultsWithCredentials
  have D: "readCONFIG ?D ''undefined'' = NotFound" "PRODUCTION ?D = Str ''production''"
    "readCONFIG ?D ''production'' =
       Defaults [''authMethod'' \<mapsto> Str ''api-key'', ''partnerKey'' \<mapsto> Str ''p-default'']"
    "API_KEY ?D = Str ''api-key''" "USER_TOKEN ?D = Str ''user-token''"
    by (simp_all add: defaultsWithCredentials_def sampleConstants_def readCONFIG_def
        Object_prototype_def)
  have a: "Celsius ?K logging [''authMethod'' \<mapsto> Str ''password''] [] = Inl INVALID_AUTH_METHOD"
    using auth_check_first_on_merged [of ?K "[''authMethod'' \<mapsto> Str ''password'']" logging "[]"]
    by (simp add: resolve_def selectDefaults_def Object_assign_def property_def sample_simps)
  have b: "Celsius ?K logging Map.empty [] = Inl INVALID_AUTH_METHOD"
    using auth_check_first_on_merged [of ?K Map.empty logging "[]"]
    by (simp add: resolve_def selectDefaults_def Object_assign_def property_def sample_simps)
  have r: "resolve ?D Map.empty = resolve ?D [''authMethod'' \<mapsto> Str ''api-key'', ''partnerKey'' \<mapsto> Str ''p-default'']"
    by (simp add: resolve_def selectDefaults_def Object_assign_def property_def D)
  have c: "Celsius ?D logging Map.empty [] =
     Celsius ?D logging [''authMethod'' \<mapsto> Str ''api-key'', ''partnerKey'' \<mapsto> Str ''p-default''] []"
    using auth_check_first_on_merged
        [where K = ?D and config = Map.empty and HttpClient = logging and h = "[]" and
          config' = "[''authMethod'' \<mapsto> Str ''api-key'', ''partnerKey'' \<mapsto> Str ''p-default'']"] r
    by blast
  have d: "\<exists>api h. Celsius ?D logging Map.empty [] = Inr (api, h)"
    by (simp add: Celsius_unfold validate_def resolve_def selectDefaults_def Object_assign_def property_def D)
  from a b c d show ?thesis by blast
qed


section \<open>The nine operations\<close>

text \<open>
  C4. Each of the nine operations of a constructed client is one call of the dispatcher
  that \<^verbatim>\<open>HttpClient\<close> built from the merged configuration: \<^verbatim>\<open>get\<close> or \<^verbatim>\<open>post\<close> as
  the facade table says, on that table's path with the coin symbol or the transaction id
  put in, with the operation's payload (\<^verbatim>\<open>null\<close> where it has none) and the caller's
  user secret. The operation's result is the result of that call, whatever a call of the
  dispatcher returns or does.
\<close>

theorem facade_one_dispatcher_call:
  assumes "Celsius K HttpClient config h = Inr (api, h')"
  shows "getKycStatus api userSecret =
           get (HttpClient (length h)) ''/kyc'' JNull userSecret \<and>
         verifyKyc api userData documents userSecret =
           post (HttpClient (length h)) ''/kyc'' userData documents userSecret \<and>
         getBalanceSummary api userSecret =
           get (HttpClient (length h)) ''/balance'' JNull userSecret \<and>
         getCoinBalance api coin userSecret =
           get (HttpClient (length h)) (''/balance/'' @ coin) JNull userSecret \<and>
         getTransactionSummary api pagination userSecret =
           get (HttpClient (length h)) ''/transactions'' pagination userSecret \<and>
         getCoinTransactions api coin pagination userSecret =
           get (HttpClient (length h)) (''/transactions/'' @ coin) pagination userSecret \<and>
         getDeposit api coin userSecret =
           get (HttpClient (length h)) (''/deposit/'' @ coin) JNull userSecret \<and>
         withdraw api coin formFields userSecret =
           post (HttpClient (length h)) (''/withdraw/'' @ coin) formFields JNull userSecret \<and>
         getTransactionStatus api transaction userSecret =
           get (HttpClient (length h)) (''/transactions/status/'' @ transaction) JNull userSecret"
proof -
  from assms have "api = facade (HttpClient (length h))"
    by (simp add: Celsius_Inr)
  then show ?thesis
    by (simp add: facade_def PATHS_defs)
qed

theorem facade_one_dispatcher_call_witness:
  "Celsius sampleConstants logging
     [''authMethod'' \<mapsto> Str ''user-token'', ''partnerKey'' \<mapsto> Str ''p-secret''] [] =
   Inr (facade (logging 0),
        [resolve sampleConstants [''authMethod'' \<mapsto> Str ''user-token'', ''partnerKey'' \<mapsto> Str ''p-secret'']]) \<and>
   net (snd (getCoinBalance (facade (logging 0)) ''ETH'' ''u-1'' \<lparr>heap = [], net = []\<rparr>)) =
     [Get ''/balance/ETH'' JNull ''u-1''] \<and>
   net (snd (withdraw (facade (logging 0)) ''BTC'' (JObj [(''amount'', JNum 2)]) ''u-1''
          \<lparr>heap = [], net = []\<rparr>)) =
     [Post ''/withdraw/BTC'' (JObj [(''amount'', JNum 2)]) JNull ''u-1''] \<and>
   net (snd (getTransactionStatus (facade (logging 0)) ''tx-9'' ''u-1'' \<lparr>heap = [], net = []\<rparr>)) =
     [Get ''/transactions/status/tx-9'' JNull ''u-1'']"
proof -
  let ?cfg = "[''authMethod'' \<mapsto> Str ''user-token'', ''partnerKey'' \<mapsto> Str ''p-secret'']"
  have ok: "Celsius sampleConstants logging ?cfg [] =
      Inr (facade (logging 0), [resolve sampleConstants ?cfg])"
    using sample_valid [of logging "[]"] by simp
  note one = facade_one_dispatcher_call [OF ok]
  let ?w = "\<lparr>heap = [], net = []\<rparr> :: dispatch list world"
  have a: "net (snd (getCoinBalance (facade (logging 0)) ''ETH'' ''u-1'' ?w)) =
     [Get ''/balance/ETH'' JNull ''u-1'']"
    using one [where coin = "''ETH''" and userSecret = "''u-1''"] by (simp add: logging_def)
  have b: "net (snd (withdraw (facade (logging 0)) ''BTC'' (JObj [(''amount'', JNum 2)]) ''u-1'' ?w)) =
     [Post ''/withdraw/BTC'' (JObj [(''amount'', JNum 2)]) JNull ''u-1'']"
    using one [where coin = "''BTC''" and userSecret = "''u-1''" and
        formFields = "JObj [(''amount'', JNum 2)]"]
    by (simp add: logging_def)
  have c: "net (snd (getTransactionStatus (facade (logging 0)) ''tx-9'' ''u-1'' ?w)) =
     [Get ''/transactions/status/tx-9'' JNull ''u-1'']"
    using one [where transaction = "''tx-9''" and userSecret = "''u-1''"] by (simp add: logging_def)
  from ok a b c show ?thesis by blast
qed

section \<open>The requests of the specification's dispatcher\<close>

lemma partnerKey_string:
  assumes "validate K m = None"
  shows "\<exists>p. property m ''partnerKey'' = Str p \<and> p \<noteq> []"
proof -
  from assms have "truthy (property m ''partnerKey'')"
    by (simp add: validate_def split: if_splits)
  then show ?thesis by (cases "property m ''partnerKey''") simp_all
qed

lemma deref_new: "deref (h @ [m]) (length h) = m"
  by (simp add: deref_def objectAt_new)

lemma invoke_spec:
  assumes "deref (heap w) a = m"
  shows "\<exists>req. invoke (facade (HttpClient_spec X a)) call w = (X (net w) req, w\<lparr>net := net w @ [req]\<rparr>) \<and>
     reqHeaders req = credentials m (userSecretOf call)"
proof -
  have g: "\<exists>req. get (HttpClient_spec X a) url q s w = (X (net w) req, w\<lparr>net := net w @ [req]\<rparr>) \<and>
      reqHeaders req = credentials m s" for url q s
    by (rule exI [of _ "\<lparr> reqMethod = GET, reqPath = url, reqQuery = serialize q, reqBody = [],
              reqHeaders = credentials m s \<rparr>"])
      (simp add: HttpClient_spec_def send_def assms)
  have p: "\<exists>req. post (HttpClient_spec X a) url d docs s w = (X (net w) req, w\<lparr>net := net w @ [req]\<rparr>) \<and>
      reqHeaders req = credentials m s" for url d docs s
    by (rule exI [of _ "\<lparr> reqMethod = POST, reqPath = url, reqQuery = [],
              reqBody = part Json d @ part Multipart docs, reqHeaders = credentials m s \<rparr>"])
      (simp add: HttpClient_spec_def send_def assms)
  show ?thesis
    by (cases call) (simp_all add: facade_def g p)
qed

lemma constructed_spec:
  assumes "Celsius K (HttpClient_spec X) config h = Inr (api, h')" and "heap w = h'"
  shows "api = facade (HttpClient_spec X (length h))"
    and "deref (heap w) (length h) = resolve K config"
    and "\<exists>p. property (resolve K config) ''partnerKey'' = Str p \<and> p \<noteq> []"
  using assms
  by (auto simp: Celsius_Inr deref_new partnerKey_string dest!: Celsius_Inr)

lemma sample_partnerKey:
  "property (resolve sampleConstants
       [''authMethod'' \<mapsto> Str ''user-token'', ''partnerKey'' \<mapsto> Str ''p-secret'']) ''partnerKey'' =
   Str ''p-secret''"
  by (simp add: resolve_def selectDefaults_def Object_assign_def property_def sample_simps)

text \<open>
  C5. On a client built over the dispatcher of the specification,
  \<^verbatim>\<open>getCoinTransactions('BTC', {page: 1, perPage: 20}, token)\<close> sends exactly one
  request: a GET of \<^verbatim>\<open>/transactions/BTC\<close> with the query string
  \<^verbatim>\<open>page=1&perPage=20\<close>, no body, the token in the user-credential header and the
  partner key of the configuration in the partner-credential header. It returns what
  the exchange of that request returns.
\<close>

theorem getCoinTransactions_request:
  assumes "Celsius K (HttpClient_spec X) config h = Inr (api, h')" and "heap w = h'"
  shows "\<exists>p req. property (resolve K config) ''partnerKey'' = Str p \<and>
           req = \<lparr> reqMethod = GET, reqPath = ''/transactions/BTC'',
                   reqQuery = ''page=1&perPage=20'', reqBody = [],
                   reqHeaders = [(PartnerCredential, p), (UserCredential, token)] \<rparr> \<and>
           getCoinTransactions api ''BTC'' (JObj [(''page'', JNum 1), (''perPage'', JNum 20)]) token w =
             (X (net w) req, w\<lparr>net := net w @ [req]\<rparr>)"
proof -
  note c = constructed_spec [OF assms]
  from c(3) obtain p where p: "property (resolve K config) ''partnerKey'' = Str p" by blast
  have q: "serialize (JObj [(''page'', JNum 1), (''perPage'', JNum 20)]) = ''page=1&perPage=20''"
    by (simp add: decimal.simps)
  have "getCoinTransactions api ''BTC'' (JObj [(''page'', JNum 1), (''perPage'', JNum 20)]) token w =
      send X \<lparr> reqMethod = GET, reqPath = ''/transactions/BTC'',
                reqQuery = ''page=1&perPage=20'', reqBody = [],
                reqHeaders = [(PartnerCredential, p), (UserCredential, token)] \<rparr> w"
    unfolding c(1)
    by (simp add: facade_def HttpClient_spec_def c(2) p q credentials_def PATHS_COIN_TRANSACTIONS_def
        del: serialize.simps)
  with p show ?thesis by (simp add: send_def)
qed

theorem getCoinTransactions_request_witness:
  "Celsius sampleConstants (HttpClient_spec (\<lambda>sent req. length sent))
     [''authMethod'' \<mapsto> Str ''user-token'', ''partnerKey'' \<mapsto> Str ''p-secret''] [] =
   Inr (facade (HttpClient_spec (\<lambda>sent req. length sent) 0),
        [resolve sampleConstants [''authMethod'' \<mapsto> Str ''user-token'', ''partnerKey'' \<mapsto> Str ''p-secret'']]) \<and>
   getCoinTransactions (facade (HttpClient_spec (\<lambda>sent req. length sent) 0)) ''BTC''
     (JObj [(''page'', JNum 1), (''perPage'', JNum 20)]) ''u-1''
     \<lparr>heap = [resolve sampleConstants
                 [''authMethod'' \<mapsto> Str ''user-token'', ''partnerKey'' \<mapsto> Str ''p-secret'']],
      net = []\<rparr> =
   (0, \<lparr>heap = [resolve sampleConstants
                    [''authMethod'' \<mapsto> Str ''user-token'', ''partnerKey'' \<mapsto> Str ''p-secret'']],
         net = [\<lparr> reqMethod = GET, reqPath = ''/transactions/BTC'',
                   reqQuery = ''page=1&perPage=20'', reqBody = [],
                   reqHeaders = [(PartnerCredential, ''p-secret''), (UserCredential, ''u-1'')] \<rparr>]\<rparr>)"
proof -
  let ?cfg = "[''authMethod'' \<mapsto> Str ''user-token'', ''partnerKey'' \<mapsto> Str ''p-secret'']"
  let ?H = "HttpClient_spec (\<lambda>sent req. length sent)"
  let ?w = "\<lparr>heap = [resolve sampleConstants ?cfg], net = [] :: request list\<rparr>"
  have ok: "Celsius sampleConstants ?H ?cfg [] = Inr (facade (?H 0), [resolve sampleConstants ?cfg])"
    using sample_valid [of ?H "[]"] by simp
  have hp: "heap ?w = [resolve sampleConstants ?cfg]" by simp
  from getCoinTransactions_request [OF ok hp, of "''u-1''"] sample_partnerKey
  have "getCoinTransactions (facade (?H 0)) ''BTC''
      (JObj [(''page'', JNum 1), (''perPage'', JNum 20)]) ''u-1'' ?w =
    (0, \<lparr>heap = [resolve sampleConstants ?cfg],
         net = [\<lparr> reqMethod = GET, reqPath = ''/transactions/BTC'',
                   reqQuery = ''page=1&perPage=20'', reqBody = [],
                   reqHeaders = [(PartnerCredential, ''p-secret''), (UserCredential, ''u-1'')] \<rparr>]\<rparr>)"
    by auto
  with ok show ?thesis by blast
qed

text \<open>
  C7. On a client built over the dispatcher of the specification,
  \<^verbatim>\<open>verifyKyc(userData, documents, token)\<close> with both payloads present sends exactly
  one request, a POST of \<^verbatim>\<open>/kyc\<close>, whose body holds the user data encoded as JSON and
  the documents encoded with the multipart scheme.
\<close>

theorem verifyKyc_multipart:
  assumes "Celsius K (HttpClient_spec X) config h = Inr (api, h')" and "heap w = h'"
    and "present userData" and "present documents"
  shows "\<exists>req. verifyKyc api userData documents userSecret w =
             (X (net w) req, w\<lparr>net := net w @ [req]\<rparr>) \<and>
           reqMethod req = POST \<and> reqPath req = ''/kyc'' \<and>
           reqBody req = [(Json, userData), (Multipart, documents)] \<and>
           map_of (reqHeaders req) UserCredential = Some userSecret"
proof -
  note c = constructed_spec(1) [OF assms(1,2)]
  let ?req = "\<lparr> reqMethod = POST, reqPath = ''/kyc'', reqQuery = [],
                 reqBody = [(Json, userData), (Multipart, documents)],
                 reqHeaders = credentials (deref (heap w) (length h)) userSecret \<rparr>"
  have "verifyKyc api userData documents userSecret w = send X ?req w"
    unfolding c
    by (simp add: facade_def HttpClient_spec_def part_def assms(3,4) PATHS_KYC_def)
  then show ?thesis
    by (intro exI [of _ ?req]) (simp add: send_def credentials_def)
qed

theorem verifyKyc_multipart_witness:
  "Celsius sampleConstants (HttpClient_spec (\<lambda>sent req. length sent))
     [''authMethod'' \<mapsto> Str ''user-token'', ''partnerKey'' \<mapsto> Str ''p-secret''] [] =
   Inr (facade (HttpClient_spec (\<lambda>sent req. length sent) 0),
        [resolve sampleConstants [''authMethod'' \<mapsto> Str ''user-token'', ''partnerKey'' \<mapsto> Str ''p-secret'']]) \<and>
   present (JObj [(''first_name'', JStr ''Satoshi'')]) \<and>
   present (JObj [(''document_front_image'', JStr ''front.png'')]) \<and>
   (\<exists>req. verifyKyc (facade (HttpClient_spec (\<lambda>sent req. length sent) 0))
       (JObj [(''first_name'', JStr ''Satoshi'')])
       (JObj [(''document_front_image'', JStr ''front.png'')]) ''u-1''
       \<lparr>heap = [resolve sampleConstants
                   [''authMethod'' \<mapsto> Str ''user-token'', ''partnerKey'' \<mapsto> Str ''p-secret'']],
        net = []\<rparr> =
     (0, \<lparr>heap = [resolve sampleConstants
                      [''authMethod'' \<mapsto> Str ''user-token'', ''partnerKey'' \<mapsto> Str ''p-secret'']],
           net = [req]\<rparr>) \<and>
     reqMethod req = POST \<and> reqPath req = ''/kyc'' \<and>
     reqBody req = [(Json, JObj [(''first_name'', JStr ''Satoshi'')]),
                    (Multipart, JObj [(''document_front_image'', JStr ''front.png'')])])"
proof -
  let ?cfg = "[''authMethod'' \<mapsto> Str ''user-token'', ''partnerKey'' \<mapsto> Str ''p-secret'']"
  let ?H = "HttpClient_spec (\<lambda>sent req. length sent)"
  let ?w = "\<lparr>heap = [resolve sampleConstants ?cfg], net = [] :: request list\<rparr>"
  let ?u = "JObj [(''first_name'', JStr ''Satoshi'')]"
  let ?d = "JObj [(''document_front_image'', JStr ''front.png'')]"
  have ok: "Celsius sampleConstants ?H ?cfg [] = Inr (facade (?H 0), [resolve sampleConstants ?cfg])"
    using sample_valid [of ?H "[]"] by simp
  have hp: "heap ?w = [resolve sampleConstants ?cfg]" by simp
  have pu: "present ?u" and pd: "present ?d" by simp_all
  from verifyKyc_multipart [OF ok hp pu pd, of "''u-1''"]
  have "\<exists>req. verifyKyc (facade (?H 0)) ?u ?d ''u-1'' ?w =
     (0, \<lparr>heap = [resolve sampleConstants ?cfg], net = [req]\<rparr>) \<and>
     reqMethod req = POST \<and> reqPath req = ''/kyc'' \<and>
     reqBody req = [(Json, ?u), (Multipart, ?d)]"
    by auto
  with ok pu pd show ?thesis by blast
qed

text \<open>
  C8. On a client built over the dispatcher of the specification, every call of every
  one of the nine operations sends exactly one request, and that request carries both
  authentication headers: the partner key of the configuration resolved at construction,
  a non-empty string, and the user secret that the caller passed to this call.
\<close>

theorem both_credentials_on_every_request:
  assumes "Celsius K (HttpClient_spec X) config h = Inr (api, h')" and "heap w = h'"
  shows "\<exists>p req. property (resolve K config) ''partnerKey'' = Str p \<and> p \<noteq> [] \<and>
           invoke api call w = (X (net w) req, w\<lparr>net := net w @ [req]\<rparr>) \<and>
           map_of (reqHeaders req) PartnerCredential = Some p \<and>
           map_of (reqHeaders req) UserCredential = Some (userSecretOf call)"
proof -
  from assms(1) have api: "api = facade (HttpClient_spec X (length h))"
    and h': "h' = h @ [resolve K config]"
    and v: "validate K (resolve K config) = None"
    by (simp_all add: Celsius_Inr)
  from v obtain p where p: "property (resolve K config) ''partnerKey'' = Str p" "p \<noteq> []"
    using partnerKey_string by blast
  have "deref (heap w) (length h) = resolve K config"
    using assms(2) h' by (simp add: deref_new)
  then obtain req where
    req: "invoke api call w = (X (net w) req, w\<lparr>net := net w @ [req]\<rparr>)"
      "reqHeaders req = credentials (resolve K config) (userSecretOf call)"
    unfolding api using invoke_spec by blast
  from req(2) p have "map_of (reqHeaders req) PartnerCredential = Some p"
    "map_of (reqHeaders req) UserCredential = Some (userSecretOf call)"
    by (simp_all add: credentials_def)
  with p req(1) show ?thesis by blast
qed

theorem both_credentials_on_every_request_witness:
  "Celsius sampleConstants (HttpClient_spec (\<lambda>sent req. length sent))
     [''authMethod'' \<mapsto> Str ''user-token'', ''partnerKey'' \<mapsto> Str ''p-secret''] [] =
   Inr (facade (HttpClient_spec (\<lambda>sent req. length sent) 0),
        [resolve sampleConstants [''authMethod'' \<mapsto> Str ''user-token'', ''partnerKey'' \<mapsto> Str ''p-secret'']]) \<and>
   (\<exists>req. invoke (facade (HttpClient_spec (\<lambda>sent req. length sent) 0)) (GetDeposit ''ETH'' ''u-7'')
       \<lparr>heap = [resolve sampleConstants
                   [''authMethod'' \<mapsto> Str ''user-token'', ''partnerKey'' \<mapsto> Str ''p-secret'']],
        net = []\<rparr> =
     (0, \<lparr>heap = [resolve sampleConstants
                      [''authMethod'' \<mapsto> Str ''user-token'', ''partnerKey'' \<mapsto> Str ''p-secret'']],
           net = [req]\<rparr>) \<and>
     map_of (reqHeaders req) PartnerCredential = Some ''p-secret'' \<and>
     map_of (reqHeaders req) UserCredential = Some ''u-7'')"
proof -
  let ?cfg = "[''authMethod'' \<mapsto> Str ''user-token'', ''partnerKey'' \<mapsto> Str ''p-secret'']"
  let ?H = "HttpClient_spec (\<lambda>sent req. length sent)"
  let ?w = "\<lparr>heap = [resolve sampleConstants ?cfg], net = [] :: request list\<rparr>"
  have ok: "Celsius sampleConstants ?H ?cfg [] = Inr (facade (?H 0), [resolve sampleConstants ?cfg])"
    using sample_valid [of ?H "[]"] by simp
  have hp: "heap ?w = [resolve sampleConstants ?cfg]" by simp
  from both_credentials_on_every_request [OF ok hp, of "GetDeposit ''ETH'' ''u-7''"] sample_partnerKey
  have "\<exists>req. invoke (facade (?H 0)) (GetDeposit ''ETH'' ''u-7'') ?w =
     (0, \<lparr>heap = [resolve sampleConstants ?cfg], net = [req]\<rparr>) \<and>
     map_of (reqHeaders req) PartnerCredential = Some ''p-secret'' \<and>
     map_of (reqHeaders req) UserCredential = Some ''u-7''"
    by auto
  with ok show ?thesis by blast
qed

end
